theory Spec2Isabelle
  imports Main "HOL-Library.Multiset"
begin

section \<open>Request values\<close>

text \<open>
  The route handlers read the fields of \<^verbatim>\<open>req.body\<close> and \<^verbatim>\<open>req.params\<close> untyped and make
  two observations of an id: its truthiness (\<^verbatim>\<open>!eventId\<close>) and \<^verbatim>\<open>parseInt\<close>. A request
  value is therefore one of: an integer \<open>n\<close> (falsy exactly when \<open>n = 0\<close>, parsed as \<open>n\<close>);
  an absent value (\<^verbatim>\<open>undefined\<close>, \<^verbatim>\<open>null\<close>, the empty string: falsy, parsed as NaN); any
  other value (truthy, parsed as NaN).
\<close>

datatype jsval = JNum int | JAbsent | JOther

fun truthy :: "jsval \<Rightarrow> bool" where
  "truthy (JNum n) = (n \<noteq> 0)"
| "truthy JAbsent = False"
| "truthy JOther = True"

text \<open>\<^verbatim>\<open>parseInt\<close>; \<open>None\<close> is NaN.\<close>

fun parseInt :: "jsval \<Rightarrow> int option" where
  "parseInt (JNum n) = Some n"
| "parseInt JAbsent = None"
| "parseInt JOther = None"

section \<open>Data model (prisma/migrations)\<close>

datatype role = MEMBER | OFFICER | ADMIN

datatype active_status = ACTIVE | NOT_ACTIVE

record user =
  username :: string
  role :: role

record character =
  userId :: int
  name :: string
  dkp :: int
  active :: active_status

record event =
  title :: string
  description :: "string option"
  startTime :: int
  endTime :: int
  dkpReward :: int

record item =
  itemName :: string
  minDkpCost :: int

text \<open>
  The tables. Rows of \<open>users\<close>, \<open>characters\<close>, \<open>events\<close> and \<open>items\<close> are keyed by their
  integer primary key; \<open>attendances\<close> holds the (event_id, character_id) pairs and
  \<open>wishes\<close> the (character_id, item_id) pairs, in the order the storage returns them.
  The primary keys are \<^verbatim>\<open>AUTOINCREMENT\<close>: the id of a row is at least 1, never the 0 that
  the handlers take for a missing id.
\<close>

record database =
  users :: "int \<rightharpoonup> user"
  characters :: "int \<rightharpoonup> character"
  events :: "int \<rightharpoonup> event"
  items :: "int \<rightharpoonup> item"
  attendances :: "(int \<times> int) list"
  wishes :: "(int \<times> int) list"

text \<open>The authenticated principal \<^verbatim>\<open>req.user\<close>: its id and its role.\<close>

record req_user =
  uid :: int
  urole :: role

text \<open>
  The errors the Prisma client throws for the constraints of the schema: a violated
  primary key or unique index, a violated foreign key, an update or delete of a row that
  does not exist.
\<close>

datatype prisma_error = UniqueConstraintFailed | ForeignKeyConstraintFailed | RecordNotFound

section \<open>PrismaDatabase operations\<close>

definition getEventById :: "int \<Rightarrow> database \<Rightarrow> event option" where
  "getEventById eventId db = events db eventId"

definition getCharacterById :: "int \<Rightarrow> int \<Rightarrow> database \<Rightarrow> character option" where
  "getCharacterById characterId uId db =
     (case characters db characterId of
        None \<Rightarrow> None
      | Some ch \<Rightarrow> if userId ch = uId then Some ch else None)"

definition checkAttendanceExists :: "int \<Rightarrow> int \<Rightarrow> database \<Rightarrow> bool" where
  "checkAttendanceExists eventId characterId db =
     ((eventId, characterId) \<in> set (attendances db))"

text \<open>
  \<^verbatim>\<open>prisma.attendance.create\<close>: the primary key (event_id, character_id) and the two
  foreign keys of the table are checked by the storage.
\<close>

definition addAttendance :: "int \<Rightarrow> int \<Rightarrow> database \<Rightarrow> prisma_error + database" where
  "addAttendance eventId characterId db =
     (if (eventId, characterId) \<in> set (attendances db) then Inl UniqueConstraintFailed
      else if events db eventId = None \<or> characters db characterId = None
        then Inl ForeignKeyConstraintFailed
      else Inr (db\<lparr>attendances := attendances db @ [(eventId, characterId)]\<rparr>))"

text \<open>
  \<^verbatim>\<open>removeAttendance\<close> catches the error of deleting a missing row and returns
  \<^verbatim>\<open>false\<close>.
\<close>

definition removeAttendance :: "int \<Rightarrow> int \<Rightarrow> database \<Rightarrow> bool \<times> database" where
  "removeAttendance eventId characterId db =
     (if (eventId, characterId) \<in> set (attendances db)
      then (True, db\<lparr>attendances := filter (\<lambda>a. a \<noteq> (eventId, characterId)) (attendances db)\<rparr>)
      else (False, db))"

text \<open>\<^verbatim>\<open>prisma.character.update\<close> with \<^verbatim>\<open>dkp: { increment: dkpChange }\<close>.\<close>

definition updateCharacterDkp :: "int \<Rightarrow> int \<Rightarrow> database \<Rightarrow> prisma_error + database" where
  "updateCharacterDkp characterId dkpChange db =
     (case characters db characterId of
        None \<Rightarrow> Inl RecordNotFound
      | Some ch \<Rightarrow>
          Inr (db\<lparr>characters := (characters db)(characterId \<mapsto> ch\<lparr>dkp := dkp ch + dkpChange\<rparr>)\<rparr>))"

text \<open>
  \<^verbatim>\<open>prisma.event.update\<close>: the fields present in \<^verbatim>\<open>updateData\<close> replace those of
  the row.
\<close>

record event_update =
  new_title :: "string option"
  new_description :: "string option option"
  new_startTime :: "int option"
  new_endTime :: "int option"
  new_dkpReward :: "int option"

definition updateEvent :: "int \<Rightarrow> event_update \<Rightarrow> database \<Rightarrow> prisma_error + database" where
  "updateEvent eventId updateData db =
     (case events db eventId of
        None \<Rightarrow> Inl RecordNotFound
      | Some ev \<Rightarrow>
          Inr (db\<lparr>events := (events db)(eventId \<mapsto>
            \<lparr>title = (case new_title updateData of None \<Rightarrow> title ev | Some x \<Rightarrow> x),
             description = (case new_description updateData of None \<Rightarrow> description ev | Some x \<Rightarrow> x),
             startTime = (case new_startTime updateData of None \<Rightarrow> startTime ev | Some x \<Rightarrow> x),
             endTime = (case new_endTime updateData of None \<Rightarrow> endTime ev | Some x \<Rightarrow> x),
             dkpReward = (case new_dkpReward updateData of None \<Rightarrow> dkpReward ev | Some x \<Rightarrow> x)\<rparr>)\<rparr>))"

definition getUserById :: "int \<Rightarrow> database \<Rightarrow> user option" where
  "getUserById uId db = users db uId"

text \<open>\<^verbatim>\<open>prisma.user.update\<close>: throws when no row has the id.\<close>

definition updateUserRole :: "int \<Rightarrow> role \<Rightarrow> database \<Rightarrow> prisma_error + (user \<times> database)" where
  "updateUserRole uId newRole db =
     (case users db uId of
        None \<Rightarrow> Inl RecordNotFound
      | Some usr \<Rightarrow>
          Inr (usr\<lparr>role := newRole\<rparr>, db\<lparr>users := (users db)(uId \<mapsto> usr\<lparr>role := newRole\<rparr>)\<rparr>))"

text \<open>\<^verbatim>\<open>demoteUser\<close>: \<open>Inr (None, db)\<close> is the \<^verbatim>\<open>null\<close> it returns.\<close>

definition demoteUser :: "int \<Rightarrow> database \<Rightarrow> prisma_error + (user option \<times> database)" where
  "demoteUser uId db =
     (case getUserById uId db of
        None \<Rightarrow> Inr (None, db)
      | Some usr \<Rightarrow>
          (case role usr of
             ADMIN \<Rightarrow>
               (case updateUserRole uId OFFICER db of
                  Inl err \<Rightarrow> Inl err | Inr (usr', db') \<Rightarrow> Inr (Some usr', db'))
           | OFFICER \<Rightarrow>
               (case updateUserRole uId MEMBER db of
                  Inl err \<Rightarrow> Inl err | Inr (usr', db') \<Rightarrow> Inr (Some usr', db'))
           | MEMBER \<Rightarrow> Inr (None, db)))"

definition getItemById :: "int \<Rightarrow> database \<Rightarrow> item option" where
  "getItemById itemId db = items db itemId"

definition checkWishExists :: "int \<Rightarrow> int \<Rightarrow> database \<Rightarrow> bool" where
  "checkWishExists characterId itemId db = ((characterId, itemId) \<in> set (wishes db))"

text \<open>
  \<^verbatim>\<open>prisma.wish.create\<close>: the primary key (character_id, item_id) and the two foreign
  keys of the table are checked by the storage.
\<close>

definition createWish :: "int \<Rightarrow> int \<Rightarrow> database \<Rightarrow> prisma_error + database" where
  "createWish characterId itemId db =
     (if (characterId, itemId) \<in> set (wishes db) then Inl UniqueConstraintFailed
      else if characters db characterId = None \<or> items db itemId = None
        then Inl ForeignKeyConstraintFailed
      else Inr (db\<lparr>wishes := wishes db @ [(characterId, itemId)]\<rparr>))"


text \<open>
  \<^verbatim>\<open>updateCharacter\<close>: \<^verbatim>\<open>updateMany\<close> on the row with this id and this owner, the fields
  present in \<^verbatim>\<open>updateData\<close> replacing those of the row; \<^verbatim>\<open>null\<close> when there is no such
  row. An update carries the fields that the model of a character has.
\<close>

record character_update =
  new_name :: "string option"
  new_dkp :: "int option"
  new_active :: "active_status option"

definition updateCharacter ::
  "int \<Rightarrow> int \<Rightarrow> character_update \<Rightarrow> database \<Rightarrow> character option \<times> database" where
  "updateCharacter characterId uId updateData db =
     (case getCharacterById characterId uId db of
        None \<Rightarrow> (None, db)
      | Some ch \<Rightarrow>
          (let ch' = \<lparr>userId = userId ch,
                     name = (case new_name updateData of None \<Rightarrow> name ch | Some x \<Rightarrow> x),
                     dkp = (case new_dkp updateData of None \<Rightarrow> dkp ch | Some x \<Rightarrow> x),
                     active = (case new_active updateData of None \<Rightarrow> active ch | Some x \<Rightarrow> x)\<rparr>
           in (Some ch', db\<lparr>characters := (characters db)(characterId \<mapsto> ch')\<rparr>)))"

section \<open>Responses\<close>

text \<open>One entry of the ranking that \<^verbatim>\<open>GET /api/wish/item/:itemId\<close> returns.\<close>

record wish_entry =
  priority :: nat
  character_id :: int
  character_dkp :: int
  character_active :: active_status
  canAfford :: bool

text \<open>
  A response is an error with its HTTP status and message, or the payload of a success.
  The fields kept are those the properties below speak about: the ids and the DKP amount of
  an attendance; the successes (character, DKP awarded), the failures (id as given or as
  parsed, reason) and the summary (total, successful, failed) of a bulk request; the id,
  name and role of a user; the ids and \<^verbatim>\<open>canAfford\<close> of a wish; the item, the entries,
  \<^verbatim>\<open>totalWishes\<close> and \<^verbatim>\<open>eligibleWishes\<close> of a ranking.
\<close>

datatype response =
    Error nat string
  | AttendanceRecorded int int int
  | AttendanceRemoved int int int
  | BulkCompleted int "(int \<times> int) list" "(jsval \<times> string) list" "nat \<times> nat \<times> nat"
  | RoleUpdated int string role
  | UserDemoted int string role
  | WishCreated int int bool
  | ItemWishes int "wish_entry list" nat nat

fun status :: "response \<Rightarrow> nat" where
  "status (Error code msg) = code"
| "status (AttendanceRecorded e c d) = 201"
| "status (AttendanceRemoved e c d) = 200"
| "status (BulkCompleted e ok bad summary) = 201"
| "status (RoleUpdated i un r) = 200"
| "status (UserDemoted i un r) = 200"
| "status (WishCreated c i a) = 201"
| "status (ItemWishes i entries n k) = 200"

text \<open>
  The routes answer a conflict, the duplicate of an Attendance or of a Wish, with status
  409.
\<close>

definition is_conflict :: "response \<Rightarrow> bool" where
  "is_conflict res = (status res = 409)"

section \<open>Authorization middleware (src/middleware/auth.ts)\<close>

text \<open>\<^verbatim>\<open>requireRole\<close>: \<open>None\<close> is \<^verbatim>\<open>next()\<close>, the request goes on to the handler.\<close>

definition requireRole :: "role list \<Rightarrow> req_user \<Rightarrow> response option" where
  "requireRole allowedRoles u =
     (if urole u \<in> set allowedRoles then None else Some (Error 403 ''Insufficient permissions''))"

definition requireAdmin :: "req_user \<Rightarrow> response option" where
  "requireAdmin = requireRole [ADMIN]"


section \<open>Attendance routes (src/routes/attendance.ts)\<close>

text \<open>
  \<^verbatim>\<open>router.post('/')\<close>. Every \<^verbatim>\<open>await database...\<close> write is a statement of its own
  against the storage, so the handler returns, with its response, the database states it
  commits, in order: one per completed write. A thrown storage error is caught by the
  handler's \<^verbatim>\<open>catch\<close> and answered with status 500; what was written before stays.
\<close>

definition post_attendance_writes ::
  "req_user \<Rightarrow> jsval \<Rightarrow> jsval \<Rightarrow> database \<Rightarrow> response \<times> database list" where
  "post_attendance_writes u eventId characterId db =
     (if \<not> truthy eventId \<or> \<not> truthy characterId
      then (Error 400 ''Event ID and Character ID are required'', [])
      else case (parseInt eventId, parseInt characterId) of
        (Some eventIdNum, Some characterIdNum) \<Rightarrow>
          (case getEventById eventIdNum db of
             None \<Rightarrow> (Error 404 ''Event not found'', [])
           | Some ev \<Rightarrow>
               if getCharacterById characterIdNum (uid u) db = None
                  \<and> urole u \<noteq> ADMIN \<and> urole u \<noteq> OFFICER
               then (Error 404 ''Character not found or access denied'', [])
               else if checkAttendanceExists eventIdNum characterIdNum db
               then (Error 409 ''Attendance record already exists for this event and character'', [])
               else (case addAttendance eventIdNum characterIdNum db of
                  Inl err \<Rightarrow> (Error 500 ''Failed to record attendance'', [])
                | Inr db1 \<Rightarrow>
                    if dkpReward ev > 0
                    then (case updateCharacterDkp characterIdNum (dkpReward ev) db1 of
                        Inl err \<Rightarrow> (Error 500 ''Failed to record attendance'', [db1])
                      | Inr db2 \<Rightarrow>
                          (AttendanceRecorded eventIdNum characterIdNum (dkpReward ev), [db1, db2]))
                    else (AttendanceRecorded eventIdNum characterIdNum (dkpReward ev), [db1])))
      | _ \<Rightarrow> (Error 400 ''Invalid event ID or character ID'', []))"

text \<open>The handler as a state transformer: the response and the last committed state.\<close>

definition post_attendance ::
  "req_user \<Rightarrow> jsval \<Rightarrow> jsval \<Rightarrow> database \<Rightarrow> response \<times> database" where
  "post_attendance u eventId characterId db =
     (case post_attendance_writes u eventId characterId db of
        (res, ws) \<Rightarrow> (res, last (db # ws)))"

text \<open>\<^verbatim>\<open>router.delete('/')\<close>.\<close>

definition delete_attendance ::
  "req_user \<Rightarrow> jsval \<Rightarrow> jsval \<Rightarrow> database \<Rightarrow> response \<times> database" where
  "delete_attendance u eventId characterId db =
     (if \<not> truthy eventId \<or> \<not> truthy characterId
      then (Error 400 ''Event ID and Character ID are required'', db)
      else case (parseInt eventId, parseInt characterId) of
        (Some eventIdNum, Some characterIdNum) \<Rightarrow>
          if getCharacterById characterIdNum (uid u) db = None
             \<and> urole u \<noteq> ADMIN \<and> urole u \<noteq> OFFICER
          then (Error 404 ''Character not found or access denied'', db)
          else if \<not> checkAttendanceExists eventIdNum characterIdNum db
          then (Error 404 ''Attendance record not found'', db)
          else (let event = getEventById eventIdNum db in
            case removeAttendance eventIdNum characterIdNum db of
              (False, db1) \<Rightarrow> (Error 500 ''Failed to remove attendance'', db1)
            | (True, db1) \<Rightarrow>
                (case event of
                   None \<Rightarrow> (AttendanceRemoved eventIdNum characterIdNum 0, db1)
                 | Some ev \<Rightarrow>
                     if dkpReward ev > 0
                     then (case updateCharacterDkp characterIdNum (- dkpReward ev) db1 of
                         Inl err \<Rightarrow> (Error 500 ''Failed to remove attendance'', db1)
                       | Inr db2 \<Rightarrow>
                           (AttendanceRemoved eventIdNum characterIdNum (dkpReward ev), db2))
                     else (AttendanceRemoved eventIdNum characterIdNum (dkpReward ev), db1)))
      | _ \<Rightarrow> (Error 400 ''Invalid event ID or character ID'', db))"




section \<open>Role management routes (src/routes/admin.ts)\<close>

text \<open>
  \<^verbatim>\<open>router.put('/users/:userId/role')\<close>, behind \<^verbatim>\<open>requireAdmin\<close>. The body's \<^verbatim>\<open>role\<close>
  is \<open>Some r\<close> when it is one of the three role names and \<open>None\<close> otherwise.
\<close>

definition put_user_role ::
  "req_user \<Rightarrow> jsval \<Rightarrow> role option \<Rightarrow> database \<Rightarrow> response \<times> database" where
  "put_user_role u userIdParam roleBody db =
     (case requireAdmin u of
        Some denied \<Rightarrow> (denied, db)
      | None \<Rightarrow>
          (case parseInt userIdParam of
             None \<Rightarrow> (Error 400 ''Invalid user ID'', db)
           | Some uId \<Rightarrow>
               (case roleBody of
                  None \<Rightarrow> (Error 400 ''Invalid role. Must be MEMBER, OFFICER, or ADMIN'', db)
                | Some newRole \<Rightarrow>
                    if uid u = uId \<and> urole u = ADMIN \<and> newRole \<noteq> ADMIN
                    then (Error 400 ''Cannot demote yourself from admin role'', db)
                    else (case updateUserRole uId newRole db of
                       Inl err \<Rightarrow> (Error 500 ''Failed to update user role'', db)
                     | Inr (updatedUser, db') \<Rightarrow>
                         (RoleUpdated uId (username updatedUser) (role updatedUser), db')))))"

text \<open>\<^verbatim>\<open>router.post('/users/:userId/demote')\<close>, behind \<^verbatim>\<open>requireAdmin\<close>.\<close>

definition post_user_demote :: "req_user \<Rightarrow> jsval \<Rightarrow> database \<Rightarrow> response \<times> database" where
  "post_user_demote u userIdParam db =
     (case requireAdmin u of
        Some denied \<Rightarrow> (denied, db)
      | None \<Rightarrow>
          (case parseInt userIdParam of
             None \<Rightarrow> (Error 400 ''Invalid user ID'', db)
           | Some uId \<Rightarrow>
               if uid u = uId \<and> urole u = ADMIN
               then (Error 400 ''Cannot demote yourself from admin role'', db)
               else (case demoteUser uId db of
                  Inl err \<Rightarrow> (Error 500 ''Failed to demote user'', db)
                | Inr (None, db') \<Rightarrow>
                    (Error 400 ''User not found or cannot be demoted further'', db')
                | Inr (Some updatedUser, db') \<Rightarrow>
                    (UserDemoted uId (username updatedUser) (role updatedUser), db'))))"

section \<open>Wish routes\<close>

text \<open>\<^verbatim>\<open>router.post('/')\<close>: a character wishes for an item.\<close>

definition post_wish :: "req_user \<Rightarrow> jsval \<Rightarrow> jsval \<Rightarrow> database \<Rightarrow> response \<times> database" where
  "post_wish u characterId itemId db =
     (if \<not> truthy characterId \<or> \<not> truthy itemId
      then (Error 400 ''Character ID and Item ID are required'', db)
      else case (parseInt characterId, parseInt itemId) of
        (Some characterIdNum, Some itemIdNum) \<Rightarrow>
          (case getCharacterById characterIdNum (uid u) db of
             None \<Rightarrow> (Error 404 ''Character not found or access denied'', db)
           | Some ch \<Rightarrow>
               if active ch \<noteq> ACTIVE
               then (Error 400 ''Only active characters can make wishes'', db)
               else (case getItemById itemIdNum db of
                  None \<Rightarrow> (Error 404 ''Item not found'', db)
                | Some it \<Rightarrow>
                    if checkWishExists characterIdNum itemIdNum db
                    then (Error 409 ''Character already wishes for this item'', db)
                    else (case createWish characterIdNum itemIdNum db of
                       Inl err \<Rightarrow> (Error 500 ''Failed to create wish'', db)
                     | Inr db' \<Rightarrow>
                         (WishCreated characterIdNum itemIdNum (dkp ch \<ge> minDkpCost it), db'))))
      | _ \<Rightarrow> (Error 400 ''Invalid character or item ID'', db))"


section \<open>Dates\<close>

text \<open>
  A \<^verbatim>\<open>Date\<close> is its time value, the milliseconds since the epoch, an integer. The
  functions are those of the ECMAScript definition of \<^verbatim>\<open>Date\<close>, written as it writes them.
  Local time is UTC shifted by a constant offset \<open>tza\<close>, the parameter of every method that
  reads or sets local fields: a zone whose offset changes (daylight saving) is outside the
  model, and so is the limit of 8.64e15 ms on a time value.
\<close>

definition msPerDay :: int where
  "msPerDay = 86400000"

definition Day :: "int \<Rightarrow> int" where
  "Day t = t div msPerDay"


definition DaysInYear :: "int \<Rightarrow> int" where
  "DaysInYear y =
     (if y mod 4 \<noteq> 0 then 365 else if y mod 100 \<noteq> 0 then 366
      else if y mod 400 \<noteq> 0 then 365 else 366)"

definition DayFromYear :: "int \<Rightarrow> int" where
  "DayFromYear y =
     365 * (y - 1970) + (y - 1969) div 4 - (y - 1901) div 100 + (y - 1601) div 400"

text \<open>
  The year of a time value, the largest \<open>y\<close> with \<open>DayFromYear y \<le> Day t\<close>: computed from
  the mean length of a year, 146097 / 400 days, and corrected by one where the estimate is
  off.
\<close>

definition YearFromTime :: "int \<Rightarrow> int" where
  "YearFromTime t =
     (let d = Day t; y = 1970 + (d * 400) div 146097
      in if DayFromYear (y + 1) \<le> d then y + 1 else if d < DayFromYear y then y - 1 else y)"

definition InLeapYear :: "int \<Rightarrow> int" where
  "InLeapYear t = (if DaysInYear (YearFromTime t) = 366 then 1 else 0)"

definition DayWithinYear :: "int \<Rightarrow> int" where
  "DayWithinYear t = Day t - DayFromYear (YearFromTime t)"

definition MonthFromTime :: "int \<Rightarrow> int" where
  "MonthFromTime t =
     (let d = DayWithinYear t; l = InLeapYear t
      in if d < 31 then 0 else if d < 59 + l then 1 else if d < 90 + l then 2
         else if d < 120 + l then 3 else if d < 151 + l then 4 else if d < 181 + l then 5
         else if d < 212 + l then 6 else if d < 243 + l then 7 else if d < 273 + l then 8
         else if d < 304 + l then 9 else if d < 334 + l then 10 else 11)"

definition DateFromTime :: "int \<Rightarrow> int" where
  "DateFromTime t =
     (let d = DayWithinYear t; l = InLeapYear t; m = MonthFromTime t
      in if m = 0 then d + 1 else if m = 1 then d - 30 else if m = 2 then d - 58 - l
         else if m = 3 then d - 89 - l else if m = 4 then d - 119 - l
         else if m = 5 then d - 150 - l else if m = 6 then d - 180 - l
         else if m = 7 then d - 211 - l else if m = 8 then d - 242 - l
         else if m = 9 then d - 272 - l else if m = 10 then d - 303 - l else d - 333 - l)"

definition WeekDay :: "int \<Rightarrow> int" where
  "WeekDay t = (Day t + 4) mod 7"











section \<open>Recurring events (src/routes/event.ts)\<close>



section \<open>Example state\<close>

text \<open>
  One member (user 7) who owns one character (id 1, no DKP yet), one admin (user 9) and one
  event (id 1, Monday 2025-10-06, three hours, reward 50).
\<close>

definition demo_db :: database where
  "demo_db =
     \<lparr>users = [7 \<mapsto> \<lparr>username = ''mira'', role = MEMBER\<rparr>, 9 \<mapsto> \<lparr>username = ''odo'', role = ADMIN\<rparr>],
      characters = [1 \<mapsto> \<lparr>userId = 7, name = ''Aria'', dkp = 0, active = ACTIVE\<rparr>],
      events = [1 \<mapsto> \<lparr>title = ''Raid'', description = None, startTime = 1759773600000,
                       endTime = 1759784400000, dkpReward = 50\<rparr>],
      items = Map.empty,
      attendances = [],
      wishes = []\<rparr>"

definition demo_member :: req_user where
  "demo_member = \<lparr>uid = 7, urole = MEMBER\<rparr>"

text \<open>The example state after character 1 attended event 1.\<close>

definition demo_db_recorded :: database where
  "demo_db_recorded =
     demo_db\<lparr>attendances := [(1, 1)],
             characters := [1 \<mapsto> \<lparr>userId = 7, name = ''Aria'', dkp = 50, active = ACTIVE\<rparr>]\<rparr>"

text \<open>An edit of an event that raises its reward to 80 and leaves the rest.\<close>

definition reward_raised :: event_update where
  "reward_raised = \<lparr>new_title = None, new_description = None, new_startTime = None,
                    new_endTime = None, new_dkpReward = Some 80\<rparr>"

definition demo_admin :: req_user where
  "demo_admin = \<lparr>uid = 9, urole = ADMIN\<rparr>"


text \<open>
  Three characters who wish for item 1 (cost 100): the first can afford it, the second can
  afford it and is not active, the third cannot afford it.
\<close>

definition demo_wish_db :: database where
  "demo_wish_db =
     demo_db\<lparr>characters :=
               [1 \<mapsto> \<lparr>userId = 7, name = ''Aria'', dkp = 120, active = ACTIVE\<rparr>,
                2 \<mapsto> \<lparr>userId = 7, name = ''Brom'', dkp = 300, active = NOT_ACTIVE\<rparr>,
                3 \<mapsto> \<lparr>userId = 9, name = ''Cato'', dkp = 40, active = ACTIVE\<rparr>],
             items := [1 \<mapsto> \<lparr>itemName = ''Sunblade'', minDkpCost = 100\<rparr>],
             wishes := [(1, 1), (2, 1), (3, 1)]\<rparr>"

text \<open>An update that sets a character to not active and leaves the rest.\<close>

definition deactivate :: character_update where
  "deactivate = \<lparr>new_name = None, new_dkp = None, new_active = Some NOT_ACTIVE\<rparr>"



section \<open>Recording and removing attendance\<close>

lemma parseInt_Some: "parseInt v = Some n \<longleftrightarrow> v = JNum n"
  by (cases v) auto

text \<open>
  What a 201 answer of \<^verbatim>\<open>router.post('/')\<close> says about the request, the state before and
  the writes made.
\<close>

lemma post_attendance_writes_success:
  assumes "post_attendance_writes u eventId characterId db = (AttendanceRecorded e c r, ws)"
  shows "\<exists>ev ch. eventId = JNum e \<and> characterId = JNum c \<and> e \<noteq> 0 \<and> c \<noteq> 0
           \<and> events db e = Some ev \<and> characters db c = Some ch \<and> r = dkpReward ev
           \<and> (userId ch = uid u \<or> urole u = ADMIN \<or> urole u = OFFICER)
           \<and> (e, c) \<notin> set (attendances db)
           \<and> ws = (if 0 < r
                   then [db\<lparr>attendances := attendances db @ [(e, c)]\<rparr>,
                         db\<lparr>attendances := attendances db @ [(e, c)],
                            characters := (characters db)(c \<mapsto> ch\<lparr>dkp := dkp ch + r\<rparr>)\<rparr>]
                   else [db\<lparr>attendances := attendances db @ [(e, c)]\<rparr>])"
  using assms
  unfolding post_attendance_writes_def getEventById_def getCharacterById_def
    checkAttendanceExists_def addAttendance_def updateCharacterDkp_def
  by (auto simp: parseInt_Some split: if_splits option.splits sum.splits)


lemma post_attendance_success:
  assumes "post_attendance u eventId characterId db = (AttendanceRecorded e c r, db')"
  shows "\<exists>ev ch. eventId = JNum e \<and> characterId = JNum c \<and> e \<noteq> 0 \<and> c \<noteq> 0
           \<and> events db e = Some ev \<and> characters db c = Some ch \<and> r = dkpReward ev
           \<and> (userId ch = uid u \<or> urole u = ADMIN \<or> urole u = OFFICER)
           \<and> (e, c) \<notin> set (attendances db)
           \<and> db' = (if 0 < r
                   then db\<lparr>attendances := attendances db @ [(e, c)],
                            characters := (characters db)(c \<mapsto> ch\<lparr>dkp := dkp ch + r\<rparr>)\<rparr>
                   else db\<lparr>attendances := attendances db @ [(e, c)]\<rparr>)"
proof -
  obtain ws where w: "post_attendance_writes u eventId characterId db = (AttendanceRecorded e c r, ws)"
    and d: "db' = last (db # ws)"
    using assms by (auto simp: post_attendance_def split: prod.splits)
  from post_attendance_writes_success[OF w] d show ?thesis
    by (auto split: if_splits)
qed

lemma post_attendance_existing:
  assumes "(e, c) \<in> set (attendances db)" "e \<noteq> 0" "c \<noteq> 0" "events db e \<noteq> None"
    and "getCharacterById c (uid u) db \<noteq> None \<or> urole u = ADMIN \<or> urole u = OFFICER"
  shows "post_attendance u (JNum e) (JNum c) db =
           (Error 409 ''Attendance record already exists for this event and character'', db)"
  using assms
  unfolding post_attendance_def post_attendance_writes_def getEventById_def checkAttendanceExists_def
  by (auto split: option.splits)

lemma demo_post:
  "post_attendance demo_member (JNum 1) (JNum 1) demo_db = (AttendanceRecorded 1 1 50, demo_db_recorded)"
  by (simp add: post_attendance_def post_attendance_writes_def getEventById_def getCharacterById_def
      checkAttendanceExists_def addAttendance_def updateCharacterDkp_def demo_db_def demo_member_def
      demo_db_recorded_def)




text \<open>
  Claim C2: when \<^verbatim>\<open>recordAttendance\<close> has succeeded for a pair, the same call made again
  is answered 409 (conflict) and changes nothing, so that after the two calls the
  character's balance is the one of before plus the reward, once (the reward of an event
  is never negative: both event routes reject a negative \<^verbatim>\<open>dkpReward\<close>). More generally,
  whenever the row of a pair exists, however it was made, a call for that pair by a caller
  who passes the handler's ownership check (the owner of the character, an officer or an
  admin) is answered 409 and changes nothing.
\<close>

theorem second_record_is_conflict:
  "(post_attendance u eventId characterId db = (AttendanceRecorded e c r, db1) \<longrightarrow>
      post_attendance u eventId characterId db1 =
        (Error 409 ''Attendance record already exists for this event and character'', db1)
      \<and> (0 \<le> r \<longrightarrow> (\<exists>ch. characters db c = Some ch
            \<and> characters db1 c = Some (ch\<lparr>dkp := dkp ch + r\<rparr>))))
   \<and> ((e', c') \<in> set (attendances db') \<and> e' \<noteq> 0 \<and> c' \<noteq> 0 \<and> events db' e' \<noteq> None
        \<and> (getCharacterById c' (uid u') db' \<noteq> None \<or> urole u' = ADMIN \<or> urole u' = OFFICER) \<longrightarrow>
      post_attendance u' (JNum e') (JNum c') db' =
        (Error 409 ''Attendance record already exists for this event and character'', db'))"
proof (intro conjI impI)
  assume a: "post_attendance u eventId characterId db = (AttendanceRecorded e c r, db1)"
  from post_attendance_success[OF a] obtain ev ch where
    f: "eventId = JNum e" "characterId = JNum c" "e \<noteq> 0" "c \<noteq> 0" "events db e = Some ev"
       "characters db c = Some ch" "userId ch = uid u \<or> urole u = ADMIN \<or> urole u = OFFICER"
       "db1 = (if 0 < r
                   then db\<lparr>attendances := attendances db @ [(e, c)],
                            characters := (characters db)(c \<mapsto> ch\<lparr>dkp := dkp ch + r\<rparr>)\<rparr>
                   else db\<lparr>attendances := attendances db @ [(e, c)]\<rparr>)"
    by blast
  have "(e, c) \<in> set (attendances db1)" "events db1 e \<noteq> None"
    "getCharacterById c (uid u) db1 \<noteq> None \<or> urole u = ADMIN \<or> urole u = OFFICER"
    using f by (auto simp: getCharacterById_def)
  from post_attendance_existing[OF this(1) f(3,4) this(2,3)] f(1,2)
  show "post_attendance u eventId characterId db1 =
        (Error 409 ''Attendance record already exists for this event and character'', db1)"
    by simp
  assume "0 \<le> r"
  then show "\<exists>ch. characters db c = Some ch \<and> characters db1 c = Some (ch\<lparr>dkp := dkp ch + r\<rparr>)"
    using f by (cases "0 < r") auto
next
  assume "(e', c') \<in> set (attendances db') \<and> e' \<noteq> 0 \<and> c' \<noteq> 0 \<and> events db' e' \<noteq> None
        \<and> (getCharacterById c' (uid u') db' \<noteq> None \<or> urole u' = ADMIN \<or> urole u' = OFFICER)"
  then show "post_attendance u' (JNum e') (JNum c') db' =
        (Error 409 ''Attendance record already exists for this event and character'', db')"
    using post_attendance_existing by blast
qed

theorem second_record_is_conflict_witness:
  "post_attendance demo_member (JNum 1) (JNum 1) demo_db = (AttendanceRecorded 1 1 50, demo_db_recorded)
   \<and> post_attendance demo_member (JNum 1) (JNum 1) demo_db_recorded =
        (Error 409 ''Attendance record already exists for this event and character'', demo_db_recorded)
   \<and> map_option dkp (characters demo_db 1) = Some 0
   \<and> map_option dkp (characters demo_db_recorded 1) = Some 50
   \<and> (1, 1) \<in> set (attendances demo_db_recorded)
   \<and> getCharacterById 1 (uid demo_member) demo_db_recorded \<noteq> None"
  using second_record_is_conflict [of demo_member "JNum 1" "JNum 1" demo_db 1 1 50 demo_db_recorded
      1 1 demo_db_recorded demo_member] demo_post
  by (simp add: demo_db_def demo_db_recorded_def demo_member_def getCharacterById_def)

text \<open>
  Claim C3: when \<^verbatim>\<open>recordAttendance\<close> has succeeded for a pair, \<^verbatim>\<open>removeAttendance\<close> for
  the same pair, called on the resulting state, succeeds, reports the reward as the amount
  reversed and gives back the state of before the record: the character's balance is its
  pre-record value and the row is gone. The same holds for the balance when other
  operations come between the two calls, as long as the event (and so its reward) and the
  row of the character are as the record left them and the attendance row is still there.
  In the example the balance goes from 0 to 50 and back to 0.
\<close>

theorem record_then_remove_restores:
  assumes "post_attendance u eventId characterId db = (AttendanceRecorded e c r, db1)"
  shows "delete_attendance u eventId characterId db1 = (AttendanceRemoved e c r, db)
    \<and> (\<forall>db2. events db2 e = events db1 e \<and> characters db2 c = characters db1 c
              \<and> (e, c) \<in> set (attendances db2) \<longrightarrow>
          fst (delete_attendance u eventId characterId db2) = AttendanceRemoved e c r
          \<and> characters (snd (delete_attendance u eventId characterId db2)) c = characters db c
          \<and> (e, c) \<notin> set (attendances (snd (delete_attendance u eventId characterId db2))))"
proof -
  from post_attendance_success[OF assms] obtain ev ch where
    f: "eventId = JNum e" "characterId = JNum c" "e \<noteq> 0" "c \<noteq> 0" "events db e = Some ev"
       "characters db c = Some ch" "userId ch = uid u \<or> urole u = ADMIN \<or> urole u = OFFICER"
       "(e, c) \<notin> set (attendances db)" "r = dkpReward ev"
       "db1 = (if 0 < r
                   then db\<lparr>attendances := attendances db @ [(e, c)],
                            characters := (characters db)(c \<mapsto> ch\<lparr>dkp := dkp ch + r\<rparr>)\<rparr>
                   else db\<lparr>attendances := attendances db @ [(e, c)]\<rparr>)"
    by blast
  have flt: "filter (\<lambda>a. a \<noteq> (e, c)) (attendances db) = attendances db"
    using f(8) by (auto simp: filter_id_conv)
  have upd: "(characters db)(c \<mapsto> ch) = characters db"
    using f(6) by (simp add: map_upd_triv)
  have consecutive: "delete_attendance u eventId characterId db1 = (AttendanceRemoved e c r, db)"
    using f flt upd
    unfolding delete_attendance_def getCharacterById_def checkAttendanceExists_def
      removeAttendance_def getEventById_def updateCharacterDkp_def Let_def
    by (cases "0 < r") auto
  have later: "fst (delete_attendance u eventId characterId db2) = AttendanceRemoved e c r
          \<and> characters (snd (delete_attendance u eventId characterId db2)) c = characters db c
          \<and> (e, c) \<notin> set (attendances (snd (delete_attendance u eventId characterId db2)))"
    if h: "events db2 e = events db1 e \<and> characters db2 c = characters db1 c
              \<and> (e, c) \<in> set (attendances db2)" for db2
  proof -
    have ev2: "events db2 e = Some ev" using h f by (simp split: if_splits)
    have ch2: "characters db2 c = Some (ch\<lparr>dkp := dkp ch + (if 0 < r then r else 0)\<rparr>)"
      using h f by (simp split: if_splits)
    have row: "(e, c) \<in> set (attendances db2)" using h by simp
    show ?thesis
      using f(1-4,6,7,9) ev2 ch2 row
      unfolding delete_attendance_def getCharacterById_def checkAttendanceExists_def
        removeAttendance_def getEventById_def updateCharacterDkp_def Let_def
      by (cases "0 < r") auto
  qed
  from consecutive later show ?thesis by blast
qed

theorem record_then_remove_restores_witness:
  "post_attendance demo_member (JNum 1) (JNum 1) demo_db = (AttendanceRecorded 1 1 50, demo_db_recorded)
   \<and> map_option dkp (characters demo_db 1) = Some 0
   \<and> map_option dkp (characters demo_db_recorded 1) = Some 50
   \<and> delete_attendance demo_member (JNum 1) (JNum 1) demo_db_recorded = (AttendanceRemoved 1 1 50, demo_db)"
  using record_then_remove_restores [of demo_member "JNum 1" "JNum 1" demo_db 1 1 50 demo_db_recorded]
    demo_post
  by (simp add: demo_db_def demo_db_recorded_def)

text \<open>
  Claim C9: a successful \<^verbatim>\<open>recordAttendance\<close> for (e, c) appends the one row (e, c), which
  was not there, to the attendances and adds the event's reward to the balance of
  character c (the reward of an event is never negative); the other fields of that
  character, every other character, the events, the wishes, the items and the users are
  as before.
\<close>

theorem record_attendance_frame:
  assumes "post_attendance u eventId characterId db = (AttendanceRecorded e c r, db')"
  shows "\<exists>ev ch. events db e = Some ev \<and> r = dkpReward ev \<and> characters db c = Some ch
           \<and> (e, c) \<notin> set (attendances db)
           \<and> attendances db' = attendances db @ [(e, c)]
           \<and> (0 \<le> r \<longrightarrow> characters db' = (characters db)(c \<mapsto> ch\<lparr>dkp := dkp ch + r\<rparr>))
           \<and> (\<forall>c'. c' \<noteq> c \<longrightarrow> characters db' c' = characters db c')
           \<and> events db' = events db \<and> wishes db' = wishes db
           \<and> items db' = items db \<and> users db' = users db"
proof -
  from post_attendance_success[OF assms] obtain ev ch where
    f: "events db e = Some ev"
       "characters db c = Some ch"
       "(e, c) \<notin> set (attendances db)" "r = dkpReward ev"
       "db' = (if 0 < r
                   then db\<lparr>attendances := attendances db @ [(e, c)],
                            characters := (characters db)(c \<mapsto> ch\<lparr>dkp := dkp ch + r\<rparr>)\<rparr>
                   else db\<lparr>attendances := attendances db @ [(e, c)]\<rparr>)"
    by blast
  have "0 \<le> r \<longrightarrow> characters db' = (characters db)(c \<mapsto> ch\<lparr>dkp := dkp ch + r\<rparr>)"
    using f by (cases "0 < r") (auto simp: map_upd_triv)
  then show ?thesis using f by auto
qed

theorem record_attendance_frame_witness:
  "post_attendance demo_member (JNum 1) (JNum 1) demo_db = (AttendanceRecorded 1 1 50, demo_db_recorded)
   \<and> attendances demo_db_recorded = attendances demo_db @ [(1, 1)]
   \<and> characters demo_db_recorded =
       (characters demo_db)(1 \<mapsto> \<lparr>userId = 7, name = ''Aria'', dkp = 0 + 50, active = ACTIVE\<rparr>)
   \<and> events demo_db_recorded = events demo_db \<and> wishes demo_db_recorded = wishes demo_db"
  using record_attendance_frame [of demo_member "JNum 1" "JNum 1" demo_db 1 1 50 demo_db_recorded]
    demo_post
  by (simp add: demo_db_def demo_db_recorded_def)

text \<open>
  Claim C7: the balance of a character is at least 0 after the debit of
  \<^verbatim>\<open>removeAttendance\<close>. The handler subtracts the event's current reward with no floor
  (the manual subtraction of \<^verbatim>\<open>PUT /api/character/:id/dkp\<close> has one, \<^verbatim>\<open>Math.max(0, ...)\<close>).
  In the example, character 1 attends event 1 (balance 0 to 50), the event's reward is then
  edited to 80, and the removal of the attendance leaves the balance at -30.
\<close>

theorem remove_attendance_negative_balance:
  "post_attendance demo_member (JNum 1) (JNum 1) demo_db = (AttendanceRecorded 1 1 50, demo_db_recorded)
   \<and> updateEvent 1 reward_raised demo_db_recorded =
     Inr (demo_db_recorded\<lparr>events := [1 \<mapsto> \<lparr>title = ''Raid'', description = None,
        startTime = 1759773600000, endTime = 1759784400000, dkpReward = 80\<rparr>]\<rparr>)
   \<and> fst (delete_attendance demo_member (JNum 1) (JNum 1)
        (demo_db_recorded\<lparr>events := [1 \<mapsto> \<lparr>title = ''Raid'', description = None,
        startTime = 1759773600000, endTime = 1759784400000, dkpReward = 80\<rparr>]\<rparr>))
      = AttendanceRemoved 1 1 80
   \<and> map_option dkp (characters (snd (delete_attendance demo_member (JNum 1) (JNum 1)
        (demo_db_recorded\<lparr>events := [1 \<mapsto> \<lparr>title = ''Raid'', description = None,
        startTime = 1759773600000, endTime = 1759784400000, dkpReward = 80\<rparr>]\<rparr>))) 1)
      = Some (- 30)"
  by (simp add: post_attendance_def post_attendance_writes_def addAttendance_def
      updateEvent_def reward_raised_def delete_attendance_def getCharacterById_def
      checkAttendanceExists_def removeAttendance_def getEventById_def updateCharacterDkp_def
      demo_db_def demo_db_recorded_def demo_member_def)

theorem remove_attendance_negative_balance_witness:
  "map_option dkp (characters (snd (delete_attendance demo_member (JNum 1) (JNum 1)
        (demo_db_recorded\<lparr>events := [1 \<mapsto> \<lparr>title = ''Raid'', description = None,
        startTime = 1759773600000, endTime = 1759784400000, dkpReward = 80\<rparr>]\<rparr>))) 1)
      = Some (- 30)
   \<and> (- 30 :: int) < 0"
  using remove_attendance_negative_balance by simp

section \<open>Bulk attendance\<close>















section \<open>Self-demotion of an admin\<close>

text \<open>
  Claim C8, as stated: an admin who lowers their own role is rejected with a Conflict. Both
  routes reject the request with status 400, the status of their validation errors, and
  not with 409, the status the routes give to a conflict. In the example, admin 9 sets
  their own role to MEMBER, and demotes themselves.
\<close>

theorem self_demotion_not_conflict:
  "fst (put_user_role demo_admin (JNum 9) (Some MEMBER) demo_db)
     = Error 400 ''Cannot demote yourself from admin role''
   \<and> \<not> is_conflict (fst (put_user_role demo_admin (JNum 9) (Some MEMBER) demo_db))
   \<and> fst (post_user_demote demo_admin (JNum 9) demo_db)
     = Error 400 ''Cannot demote yourself from admin role''
   \<and> \<not> is_conflict (fst (post_user_demote demo_admin (JNum 9) demo_db))"
  by (simp add: put_user_role_def post_user_demote_def requireAdmin_def requireRole_def
      is_conflict_def demo_admin_def)

text \<open>
  Claim C8, amended: for an actor with role ADMIN, the role update to a role below ADMIN
  and the demotion, each targeting the actor's own user, are rejected with status 400 and
  the error \<open>Cannot demote yourself from admin role\<close>, and the database, with the actor's
  stored role in it, is unchanged.
\<close>

theorem self_demotion_rejected:
  assumes "urole u = ADMIN" "newRole \<noteq> ADMIN"
  shows "put_user_role u (JNum (uid u)) (Some newRole) db
           = (Error 400 ''Cannot demote yourself from admin role'', db)
         \<and> post_user_demote u (JNum (uid u)) db
           = (Error 400 ''Cannot demote yourself from admin role'', db)"
  using assms
  by (simp add: put_user_role_def post_user_demote_def requireAdmin_def requireRole_def)

theorem self_demotion_rejected_witness:
  "urole demo_admin = ADMIN
   \<and> put_user_role demo_admin (JNum 9) (Some OFFICER) demo_db
        = (Error 400 ''Cannot demote yourself from admin role'', demo_db)
   \<and> post_user_demote demo_admin (JNum 9) demo_db
        = (Error 400 ''Cannot demote yourself from admin role'', demo_db)
   \<and> map_option role (getUserById 9 demo_db) = Some ADMIN"
  using self_demotion_rejected [of demo_admin OFFICER demo_db]
  by (simp add: demo_admin_def demo_db_def getUserById_def)

section \<open>Wishes of inactive characters\<close>

lemma post_wish_inactive_unchanged:
  assumes "characters db c = Some ch" "active ch \<noteq> ACTIVE"
  shows "snd (post_wish u (JNum c) itemId db) = db
         \<and> (\<exists>code msg. fst (post_wish u (JNum c) itemId db) = Error code msg)"
  using assms
  by (auto simp: post_wish_def getCharacterById_def split: option.splits)

lemma post_wish_inactive_error:
  assumes "characters db c = Some ch" "active ch \<noteq> ACTIVE" "userId ch = uid u" "c \<noteq> 0" "i \<noteq> 0"
  shows "post_wish u (JNum c) (JNum i) db = (Error 400 ''Only active characters can make wishes'', db)"
  using assms
  by (simp add: post_wish_def getCharacterById_def)

lemma updateCharacter_wishes: "wishes (snd (updateCharacter c uId upd db)) = wishes db"
  by (simp add: updateCharacter_def Let_def split: option.splits)

lemma updateCharacter_deactivate:
  assumes "getCharacterById c uId db = Some ch"
  shows "map_option active (characters (snd (updateCharacter c uId deactivate db)) c) = Some NOT_ACTIVE"
  using assms by (simp add: updateCharacter_def deactivate_def Let_def)

text \<open>
  Claim C10: for a character that is not ACTIVE, the wish creation never inserts a row:
  whoever calls and whatever the item id, the answer is an error and the database is
  unchanged. When the caller owns the character and the ids are well-formed, the error is
  the validation error 400 \<open>Only active characters can make wishes\<close>, raised before the
  item is looked up. The check is made at creation only: the update that sets a character
  with wishes to NOT_ACTIVE leaves every wish row in place.
\<close>

theorem inactive_character_cannot_wish:
  "(characters db c = Some ch \<and> active ch \<noteq> ACTIVE \<longrightarrow>
      snd (post_wish u (JNum c) itemId db) = db
      \<and> (\<exists>code msg. fst (post_wish u (JNum c) itemId db) = Error code msg)
      \<and> (userId ch = uid u \<and> c \<noteq> 0 \<and> i \<noteq> 0 \<longrightarrow>
           post_wish u (JNum c) (JNum i) db
             = (Error 400 ''Only active characters can make wishes'', db)))
   \<and> (getCharacterById c' uId db' = Some ch' \<and> (c', i') \<in> set (wishes db') \<longrightarrow>
       map_option active (characters (snd (updateCharacter c' uId deactivate db')) c') = Some NOT_ACTIVE
       \<and> wishes (snd (updateCharacter c' uId deactivate db')) = wishes db'
       \<and> (c', i') \<in> set (wishes (snd (updateCharacter c' uId deactivate db'))))"
proof (rule conjI; rule impI)
  assume a: "characters db c = Some ch \<and> active ch \<noteq> ACTIVE"
  then have 1: "characters db c = Some ch" and 2: "active ch \<noteq> ACTIVE" by simp_all
  have "userId ch = uid u \<and> c \<noteq> 0 \<and> i \<noteq> 0 \<longrightarrow>
           post_wish u (JNum c) (JNum i) db
             = (Error 400 ''Only active characters can make wishes'', db)"
    using post_wish_inactive_error[OF 1 2] by blast
  with post_wish_inactive_unchanged[OF 1 2, of u itemId]
  show "snd (post_wish u (JNum c) itemId db) = db
      \<and> (\<exists>code msg. fst (post_wish u (JNum c) itemId db) = Error code msg)
      \<and> (userId ch = uid u \<and> c \<noteq> 0 \<and> i \<noteq> 0 \<longrightarrow>
           post_wish u (JNum c) (JNum i) db
             = (Error 400 ''Only active characters can make wishes'', db))"
    by blast
next
  assume b: "getCharacterById c' uId db' = Some ch' \<and> (c', i') \<in> set (wishes db')"
  then have 1: "getCharacterById c' uId db' = Some ch'" and 2: "(c', i') \<in> set (wishes db')"
    by simp_all
  show "map_option active (characters (snd (updateCharacter c' uId deactivate db')) c') = Some NOT_ACTIVE
       \<and> wishes (snd (updateCharacter c' uId deactivate db')) = wishes db'
       \<and> (c', i') \<in> set (wishes (snd (updateCharacter c' uId deactivate db')))"
    using updateCharacter_deactivate[OF 1] 2 by (simp add: updateCharacter_wishes)
qed

theorem inactive_character_cannot_wish_witness:
  "map_option active (characters demo_wish_db 2) = Some NOT_ACTIVE
   \<and> post_wish demo_member (JNum 2) (JNum 1) demo_wish_db
       = (Error 400 ''Only active characters can make wishes'', demo_wish_db)
   \<and> (1, 1) \<in> set (wishes demo_wish_db)
   \<and> map_option active (characters (snd (updateCharacter 1 7 deactivate demo_wish_db)) 1)
       = Some NOT_ACTIVE
   \<and> wishes (snd (updateCharacter 1 7 deactivate demo_wish_db)) = [(1, 1), (2, 1), (3, 1)]"
proof -
  have h: "characters demo_wish_db 2
             = Some \<lparr>userId = 7, name = ''Brom'', dkp = 300, active = NOT_ACTIVE\<rparr>"
    "getCharacterById 1 7 demo_wish_db
             = Some \<lparr>userId = 7, name = ''Aria'', dkp = 120, active = ACTIVE\<rparr>"
    "wishes demo_wish_db = [(1, 1), (2, 1), (3, 1)]"
    "uid demo_member = 7"
    by (simp_all add: demo_wish_db_def demo_db_def getCharacterById_def demo_member_def)
  show ?thesis
    using h inactive_character_cannot_wish [of demo_wish_db 2
        "\<lparr>userId = 7, name = ''Brom'', dkp = 300, active = NOT_ACTIVE\<rparr>" demo_member "JNum 1" 1
        1 7 demo_wish_db "\<lparr>userId = 7, name = ''Aria'', dkp = 120, active = ACTIVE\<rparr>" 1]
    by simp
qed

section \<open>Ranking the wishers of an item\<close>







section \<open>Recurring events\<close>

text \<open>
  The date fields at the epoch, one millisecond before it, on the leap day of 2000, on the
  day after it, and at the start of the example event (Monday 2025-10-06, 18:00 UTC).
\<close>

lemma date_fields_examples:
  "(YearFromTime 0, MonthFromTime 0, DateFromTime 0, WeekDay 0) = (1970, 0, 1, 4)"
  "(YearFromTime (- 1), MonthFromTime (- 1), DateFromTime (- 1), WeekDay (- 1)) = (1969, 11, 31, 3)"
  "(YearFromTime 951782400000, MonthFromTime 951782400000, DateFromTime 951782400000)
     = (2000, 1, 29)"
  "(YearFromTime 951868800000, MonthFromTime 951868800000, DateFromTime 951868800000)
     = (2000, 2, 1)"
  "(YearFromTime 1759773600000, MonthFromTime 1759773600000, DateFromTime 1759773600000,
    WeekDay 1759773600000) = (2025, 9, 6, 1)"
  by code_simp+

text \<open>
  The year of a time value is the year of the ECMAScript definition: the largest \<open>y\<close> whose
  first day is not after the day of \<open>t\<close>. The day within the year is then in the range of
  the year's days, which is what the tables of \<open>MonthFromTime\<close> and \<open>DateFromTime\<close> rely on.
\<close>

lemma div_step:
  fixes a k :: int
  assumes "1 < k"
  shows "(a + 1) div k - a div k = (if (a + 1) mod k = 0 then 1 else 0)"
proof -
  define q where "q = a div k"
  define r where "r = a mod k"
  have a: "a = k * q + r" by (simp add: q_def r_def)
  have r: "0 \<le> r" "r < k" using assms by (simp_all add: r_def)
  show ?thesis
  proof (cases "r + 1 < k")
    case True
    have e: "a + 1 = k * q + (r + 1)" using a by simp
    have "(a + 1) div k = q" using e r True by (intro int_div_pos_eq[of _ _ _ "r + 1"]) auto
    moreover have "(a + 1) mod k = r + 1" using e r True by (intro int_mod_pos_eq[of _ _ q]) auto
    ultimately show ?thesis using r by (simp add: q_def)
  next
    case False
    then have rk: "r + 1 = k" using r by simp
    have e: "a + 1 = k * (q + 1) + 0" using a rk by (simp add: algebra_simps)
    have "(a + 1) div k = q + 1" using e assms by (intro int_div_pos_eq[of _ _ _ 0]) auto
    moreover have "(a + 1) mod k = 0" using e assms by (intro int_mod_pos_eq[of _ _ "q + 1"]) auto
    ultimately show ?thesis by (simp add: q_def)
  qed
qed

lemma year_steps:
  fixes y :: int
  shows "(y - 1968) div 4 - (y - 1969) div 4 = (if y mod 4 = 0 then 1 else 0)"
    and "(y - 1900) div 100 - (y - 1901) div 100 = (if y mod 100 = 0 then 1 else 0)"
    and "(y - 1600) div 400 - (y - 1601) div 400 = (if y mod 400 = 0 then 1 else 0)"
proof -
  have m4: "(y - 1968) mod 4 = y mod 4"
    using mod_mult_self1[of y "- 492" 4] by simp
  have m100: "(y - 1900) mod 100 = y mod 100"
    using mod_mult_self1[of y "- 19" 100] by simp
  have m400: "(y - 1600) mod 400 = y mod 400"
    using mod_mult_self1[of y "- 4" 400] by simp
  show "(y - 1968) div 4 - (y - 1969) div 4 = (if y mod 4 = 0 then 1 else 0)"
    using div_step[of 4 "y - 1969"] m4 by simp
  show "(y - 1900) div 100 - (y - 1901) div 100 = (if y mod 100 = 0 then 1 else 0)"
    using div_step[of 100 "y - 1901"] m100 by simp
  show "(y - 1600) div 400 - (y - 1601) div 400 = (if y mod 400 = 0 then 1 else 0)"
    using div_step[of 400 "y - 1601"] m400 by simp
qed

lemma DayFromYear_Suc: "DayFromYear (y + 1) = DayFromYear y + DaysInYear y"
proof -
  have m: "y mod 100 = 0 \<Longrightarrow> y mod 4 = 0" "y mod 400 = 0 \<Longrightarrow> y mod 100 = 0"
  proof -
    have "y mod 4 = y mod 100 mod 4" by (simp add: mod_mod_cancel)
    then show "y mod 100 = 0 \<Longrightarrow> y mod 4 = 0" by simp
    have "y mod 100 = y mod 400 mod 100" by (simp add: mod_mod_cancel)
    then show "y mod 400 = 0 \<Longrightarrow> y mod 100 = 0" by simp
  qed
  define A where "A = (y - 1969) div 4"
  define B where "B = (y - 1901) div 100"
  define C where "C = (y - 1601) div 400"
  define A' where "A' = (y - 1968) div 4"
  define B' where "B' = (y - 1900) div 100"
  define C' where "C' = (y - 1600) div 400"
  have s: "A' - A = (if y mod 4 = 0 then 1 else 0)" "B' - B = (if y mod 100 = 0 then 1 else 0)"
    "C' - C = (if y mod 400 = 0 then 1 else 0)"
    unfolding A_def B_def C_def A'_def B'_def C'_def by (rule year_steps)+
  have f1: "DayFromYear (y + 1) = 365 * (y - 1969) + A' - B' + C'"
    by (simp add: DayFromYear_def A'_def B'_def C'_def)
  have f0: "DayFromYear y = 365 * (y - 1970) + A - B + C"
    by (simp add: DayFromYear_def A_def B_def C_def)
  show ?thesis
    unfolding f1 f0 DaysInYear_def using s m by (auto split: if_splits)
qed

lemma DayFromYear_bounds:
  "146097 * (y - 1970) - 506 \<le> 400 * DayFromYear y"
  "400 * DayFromYear y \<le> 146097 * (y - 1970) + 589"
proof -
  define A where "A = (y - 1969) div 4"
  define B where "B = (y - 1901) div 100"
  define C where "C = (y - 1601) div 400"
  define ra where "ra = (y - 1969) mod 4"
  define rb where "rb = (y - 1901) mod 100"
  define rc where "rc = (y - 1601) mod 400"
  have a: "4 * A = (y - 1969) - ra"
    by (simp add: A_def ra_def minus_mod_eq_mult_div)
  have b: "100 * B = (y - 1901) - rb"
    by (simp add: B_def rb_def minus_mod_eq_mult_div)
  have c: "400 * C = (y - 1601) - rc"
    by (simp add: C_def rc_def minus_mod_eq_mult_div)
  have r: "0 \<le> ra" "ra < 4" "0 \<le> rb" "rb < 100" "0 \<le> rc" "rc < 400"
    by (simp_all add: ra_def rb_def rc_def)
  have f: "DayFromYear y = 365 * (y - 1970) + A - B + C"
    by (simp add: DayFromYear_def A_def B_def C_def)
  have a': "400 * A = 100 * (y - 1969) - 100 * ra" using a by simp
  have b': "400 * B = 4 * (y - 1901) - 4 * rb" using b by simp
  show "146097 * (y - 1970) - 506 \<le> 400 * DayFromYear y"
    unfolding f using a' b' c r by simp
  show "400 * DayFromYear y \<le> 146097 * (y - 1970) + 589"
    unfolding f using a' b' c r by simp
qed

lemma YearFromTime_spec:
  "DayFromYear (YearFromTime t) \<le> Day t \<and> Day t < DayFromYear (YearFromTime t + 1)"
proof -
  define d where "d = Day t"
  define q where "q = (d * 400) div 146097"
  define y where "y = 1970 + q"
  define r where "r = (d * 400) mod 146097"
  have qr: "146097 * q = d * 400 - r"
    by (simp add: q_def r_def minus_mod_eq_mult_div)
  have r: "0 \<le> r" "r < 146097" by (simp_all add: r_def)
  have lo: "DayFromYear (y - 1) \<le> d"
    using DayFromYear_bounds(2)[of "y - 1"] qr r unfolding y_def by simp
  have hi: "d < DayFromYear (y + 2)"
    using DayFromYear_bounds(1)[of "y + 2"] qr r unfolding y_def by simp
  have s1: "DayFromYear (y + 2) = DayFromYear (y + 1 + 1)" by (simp add: algebra_simps)
  have s0: "DayFromYear y = DayFromYear (y - 1 + 1)" by simp
  have yft: "YearFromTime t =
     (if DayFromYear (y + 1) \<le> d then y + 1 else if d < DayFromYear y then y - 1 else y)"
    by (simp add: YearFromTime_def d_def y_def q_def Let_def)
  show ?thesis
    unfolding yft d_def[symmetric]
    using lo hi s1 s0 by auto
qed

lemma DayWithinYear_range:
  "0 \<le> DayWithinYear t \<and> DayWithinYear t < DaysInYear (YearFromTime t)"
  using YearFromTime_spec[of t] DayFromYear_Suc[of "YearFromTime t"]
  by (simp add: DayWithinYear_def)


lemma DayFromYear_mono:
  assumes "y \<le> y'"
  shows "DayFromYear y \<le> DayFromYear y'"
  using assms
proof (induction y' rule: int_ge_induct)
  case base
  show ?case by simp
next
  case (step i)
  have "0 \<le> DaysInYear i" by (simp add: DaysInYear_def)
  with step DayFromYear_Suc[of i] show ?case by simp
qed

lemma YearFromTime_largest:
  assumes "DayFromYear y \<le> Day t"
  shows "y \<le> YearFromTime t"
proof (rule ccontr)
  assume "\<not> y \<le> YearFromTime t"
  then have "YearFromTime t + 1 \<le> y" by simp
  then have "DayFromYear (YearFromTime t + 1) \<le> DayFromYear y" by (rule DayFromYear_mono)
  with YearFromTime_spec[of t] assms show False by simp
qed












end
